theory Spec2Isabelle
  imports Main
begin

section \<open>Data model\<close>

text \<open>
  The payment controller (controllers/payment.controller.js) reads and writes the
  billing fields of the user documents (models/user.model.js), reads the plan
  catalogue and talks to the billing provider through the \<open>stripe\<close> client.

  Identifiers (Mongo object ids, provider ids) are strings. A field that may hold
  \<open>null\<close> or \<open>undefined\<close> is an \<open>option\<close>. Dates are the milliseconds
  since the epoch that \<open>new Date(ms)\<close> stores; provider timestamps are whole seconds.
\<close>

type_synonym ObjectId = string
type_synonym Date = int

text \<open>
  Scope. The model covers the billing fields of a user document together with \<open>_id\<close>,
  \<open>email\<close> and \<open>name\<close>; the other paths of the schema (among them the timestamps)
  are not read or assigned by the controller and are left out. The strings that come from
  the provider carry no surrounding white space, so that the \<open>trim\<close> setters of the
  schema store them as they are. The store answers every query. Within one handler run the
  provider's answer is a function of the request.
\<close>

text \<open>
  The names of constants/index.js that the controller uses. The numeric values
  behind \<open>HttpStatusCode\<close> are not needed: the controller only passes the names on.
  The strings behind \<open>PlanTypes\<close> are a parameter of the operation that reads them.
\<close>

datatype HttpStatusCode = OK | BAD_REQUEST | UNAUTHORIZED | NOT_FOUND | INTERNAL_SERVER_ERROR

record PlanTypes =
  MONTHLY :: string
  YEARLY :: string
  FREE_TRIAL :: string

text \<open>The fields of a plan document that the controller reads.\<close>

record plan =
  plan_id :: ObjectId
  plan_name :: string
  plan_type :: string
  stripePriceId :: "string option"
  isActive :: bool

text \<open>
  \<open>currentPlanId\<close> is declared \<open>ObjectId, ref: 'Plan'\<close>. A stored document
  holds the id; a document handed over by the session layer holds the id or, when that
  layer populated the path, the plan document itself. The type parameter \<open>'r\<close> is
  what the path holds: \<open>ObjectId\<close> in the store, \<open>plan_ref\<close> on \<open>req.user\<close>.
\<close>

datatype plan_ref = Unpopulated ObjectId | Populated plan

record 'r user =
  user_id :: ObjectId
  email :: string
  user_name :: string
  stripeCustomerId :: "string option"
  stripeSubscriptionId :: "string option"
  subscriptionStatus :: "string option"
  currentPlanId :: "'r option"
  currentPlanType :: "string option"
  subscriptionExpiresAt :: "Date option"

text \<open>
  Provider objects. \<open>current_period_end\<close> has type \<open>'n\<close>: a number where the
  controller multiplies it unconditionally, an optional number where the controller
  tests it first (the deleted-subscription handler).
\<close>

record subscription_item =
  item_id :: string
  price_id :: string

record 'n subscription =
  sub_id :: string
  sub_status :: string
  current_period_end :: 'n
  sub_items :: "subscription_item list"

record session_metadata =
  md_userId :: ObjectId
  md_planId :: ObjectId
  md_planType :: string

record checkout_session =
  cs_id :: string
  cs_subscription :: "string option"
  cs_customer :: string
  cs_metadata :: session_metadata

record invoice =
  inv_id :: string
  inv_subscription :: "string option"

text \<open>
  A verified event: \<open>event.type\<close> with \<open>event.data.object\<close>. \<open>unhandled t\<close>
  is an event whose type \<open>t\<close> is none of the four that the \<open>switch\<close> names.
\<close>

datatype event =
    checkout_session_completed checkout_session
  | invoice_payment_succeeded invoice
  | customer_subscription_updated "int subscription"
  | customer_subscription_deleted "int option subscription"
  | unhandled string

fun event_type :: "event \<Rightarrow> string" where
  "event_type (checkout_session_completed _) = ''checkout.session.completed''"
| "event_type (invoice_payment_succeeded _) = ''invoice.payment_succeeded''"
| "event_type (customer_subscription_updated _) = ''customer.subscription.updated''"
| "event_type (customer_subscription_deleted _) = ''customer.subscription.deleted''"
| "event_type (unhandled t) = t"

section \<open>Errors, responses and effects\<close>

text \<open>
  What a handler throws: an \<open>ApiError\<close> of its own, an error of the provider's
  client (with its message), the \<open>TypeError\<close> of reading a property of \<open>null\<close>, and
  the two errors of the document layer: \<open>CastError\<close> (value, model) when a string given
  to \<open>findById\<close> is no object id, and \<open>DocumentNotFoundError\<close> when \<open>save\<close> finds
  no stored document with the id of the saved one. The controller reads \<open>error.message\<close>
  in its two \<open>catch\<close> blocks only, which the document layer's errors never reach.
\<close>

datatype error =
    ApiError HttpStatusCode string
  | StripeError string
  | TypeError string
  | CastError string string
  | DocumentNotFoundError ObjectId

fun error_message :: "error \<Rightarrow> string" where
  "error_message (ApiError _ m) = m"
| "error_message (StripeError m) = m"
| "error_message (TypeError m) = m"
| "error_message (CastError v m) =
     ''Cast to ObjectId failed for value '' @ [CHR 0x22] @ v @ [CHR 0x22]
       @ '' (type string) at path '' @ [CHR 0x22] @ ''_id'' @ [CHR 0x22]
       @ '' for model '' @ [CHR 0x22] @ m @ [CHR 0x22]"
| "error_message (DocumentNotFoundError i) =
     ''No document found for query '' @ [CHR 0x22] @ ''{ _id: '' @ i @ '' }'' @ [CHR 0x22]
       @ '' on model '' @ [CHR 0x22] @ ''User'' @ [CHR 0x22]"

datatype payload =
    CheckoutData string string
  | UpgradeData string string

datatype response =
    Json HttpStatusCode payload string
  | Send HttpStatusCode string

fun status :: "response \<Rightarrow> HttpStatusCode" where
  "status (Json c _ _) = c"
| "status (Send c _) = c"

record customer_params =
  cp_email :: string
  cp_name :: string
  cp_userId :: ObjectId

record session_params =
  sp_customer :: string
  sp_price :: "string option"
  sp_quantity :: nat
  sp_mode :: string
  sp_success_url :: string
  sp_cancel_url :: string
  sp_metadata :: session_metadata
  sp_subscription_userId :: ObjectId
  sp_allow_promotion_codes :: bool

record update_params =
  up_item :: string
  up_price :: "string option"

text \<open>
  The provider's client. Each call returns the provider's answer or the error it
  throws. \<open>webhooks_constructEvent\<close> already holds the signing secret; it is a local
  computation on the raw body and the signature header.
\<close>

record stripe =
  customers_create :: "customer_params \<Rightarrow> error + string"
  checkout_sessions_create :: "session_params \<Rightarrow> error + string \<times> string"
  subscriptions_retrieve :: "string \<Rightarrow> error + int subscription"
  subscriptions_update :: "string \<Rightarrow> update_params \<Rightarrow> error + int subscription"
  webhooks_constructEvent :: "string \<Rightarrow> string option \<Rightarrow> string + event"

text \<open>
  The effects of a handler in the order they happen: the requests sent to the provider
  and the \<open>save\<close> of a user document.
\<close>

datatype effect =
    CustomersCreate customer_params
  | CheckoutSessionsCreate session_params
  | SubscriptionsRetrieve string
  | SubscriptionsUpdate string update_params
  | UserSave ObjectId

record state =
  users :: "ObjectId user list"
  trace :: "effect list"

definition emit :: "effect \<Rightarrow> state \<Rightarrow> state" where
  "emit e s = s\<lparr>trace := trace s @ [e]\<rparr>"

text \<open>JavaScript truthiness of an optional string: \<open>null\<close>, \<open>undefined\<close> and \<open>""\<close> are falsy.\<close>

fun truthy :: "string option \<Rightarrow> bool" where
  "truthy None = False"
| "truthy (Some x) = (x \<noteq> [])"

section \<open>Dates\<close>

text \<open>
  \<open>new Date(ms)\<close> is a date when \<open>ms\<close> is within 8.64e15 of the epoch and
  \<open>Invalid Date\<close> (here \<open>None\<close>) otherwise. Assigning \<open>Invalid Date\<close> to the
  path \<open>subscriptionExpiresAt\<close> is refused by the schema's cast; the path keeps its
  value and, validation being switched off for the save, the other paths are written.
\<close>

definition Date_range :: "int \<Rightarrow> bool" where
  "Date_range ms = (- 8640000000000000 \<le> ms \<and> ms \<le> 8640000000000000)"

definition new_Date :: "int \<Rightarrow> Date option" where
  "new_Date ms = (if Date_range ms then Some ms else None)"

definition assign_subscriptionExpiresAt :: "Date option \<Rightarrow> 'r user \<Rightarrow> 'r user" where
  "assign_subscriptionExpiresAt d u =
     (case d of None \<Rightarrow> u | Some ms \<Rightarrow> u\<lparr>subscriptionExpiresAt := Some ms\<rparr>)"

section \<open>The document store\<close>

text \<open>
  \<open>findById\<close> casts its argument to an object id first. Which strings are cast, and
  to which id, is the document layer's matter: \<open>cast\<close> is a parameter, \<open>None\<close>
  where the layer throws \<open>CastError\<close>. The other queries compare strings.
\<close>

definition User_findById ::
  "(string \<Rightarrow> ObjectId option) \<Rightarrow> ObjectId user list \<Rightarrow> string \<Rightarrow> error + ObjectId user option" where
  "User_findById cast us i =
     (case cast i of
        None \<Rightarrow> Inl (CastError i ''User'')
      | Some oid \<Rightarrow> Inr (find (\<lambda>u. user_id u = oid) us))"

definition User_findOne_stripeSubscriptionId ::
  "ObjectId user list \<Rightarrow> string \<Rightarrow> ObjectId user option" where
  "User_findOne_stripeSubscriptionId us sid = find (\<lambda>u. stripeSubscriptionId u = Some sid) us"

definition Plan_findById ::
  "(string \<Rightarrow> ObjectId option) \<Rightarrow> plan list \<Rightarrow> string \<Rightarrow> error + plan option" where
  "Plan_findById cast ps i =
     (case cast i of
        None \<Rightarrow> Inl (CastError i ''Plan'')
      | Some oid \<Rightarrow> Inr (find (\<lambda>p. plan_id p = oid) ps))"

definition Plan_findOne_stripePriceId :: "plan list \<Rightarrow> string \<Rightarrow> plan option" where
  "Plan_findOne_stripePriceId ps pr = find (\<lambda>p. stripePriceId p = Some pr) ps"

definition Plan_findOne_type_active :: "plan list \<Rightarrow> string \<Rightarrow> plan option" where
  "Plan_findOne_type_active ps t = find (\<lambda>p. plan_type p = t \<and> isActive p) ps"

text \<open>
  \<open>user.save()\<close> on a loaded document sends the paths that were assigned since loading
  (the function \<open>f\<close>) to the stored document with the same \<open>_id\<close>, which is unique in
  a collection. When no stored document has that \<open>_id\<close> nothing is written and
  \<open>save\<close> throws \<open>DocumentNotFoundError\<close>.
\<close>

definition save ::
  "ObjectId \<Rightarrow> (ObjectId user \<Rightarrow> ObjectId user) \<Rightarrow> state \<Rightarrow> error option \<times> state" where
  "save i f s =
     (let s1 = emit (UserSave i) s in
      case find (\<lambda>u. user_id u = i) (users s) of
        None \<Rightarrow> (Some (DocumentNotFoundError i), s1)
      | Some _ \<Rightarrow>
          (None, s1\<lparr>users := map (\<lambda>u. if user_id u = i then f u else u) (users s)\<rparr>))"

section \<open>upgradeToYearly\<close>

text \<open>
  \<open>item.price.id === user.currentPlanId.stripePriceId\<close> inside \<open>find\<close>: the callback
  runs once per item until it returns true. On \<open>null\<close> the property read throws as soon
  as there is an item; on an unpopulated id the property is \<open>undefined\<close>, equal to no
  price id; on a populated plan it is the plan's price id.
\<close>

fun find_subscriptionItem ::
  "plan_ref option \<Rightarrow> subscription_item list \<Rightarrow> error + subscription_item option" where
  "find_subscriptionItem _ [] = Inr None"
| "find_subscriptionItem None (i # is) =
     Inl (TypeError ''Cannot read properties of null (reading 'stripePriceId')'')"
| "find_subscriptionItem (Some (Unpopulated _)) (i # is) = Inr None"
| "find_subscriptionItem (Some (Populated p)) (i # is) =
     Inr (find (\<lambda>item. Some (price_id item) = stripePriceId p) (i # is))"

definition upgrade_try ::
  "stripe \<Rightarrow> plan \<Rightarrow> string \<Rightarrow> plan_ref user \<Rightarrow> state \<Rightarrow> (error + response) \<times> state" where
  "upgrade_try st yearlyPlan subId usr s =
     (let s1 = emit (SubscriptionsRetrieve subId) s in
      case subscriptions_retrieve st subId of
        Inl e \<Rightarrow> (Inl e, s1)
      | Inr currentSubscription \<Rightarrow>
          (case find_subscriptionItem (currentPlanId usr) (sub_items currentSubscription) of
             Inl e \<Rightarrow> (Inl e, s1)
           | Inr None \<Rightarrow>
               (Inl (ApiError INTERNAL_SERVER_ERROR ''Could not find current subscription item.''), s1)
           | Inr (Some subscriptionItem) \<Rightarrow>
               (let params = \<lparr>up_item = item_id subscriptionItem, up_price = stripePriceId yearlyPlan\<rparr>;
                    s2 = emit (SubscriptionsUpdate subId params) s1 in
                case subscriptions_update st subId params of
                  Inl e \<Rightarrow> (Inl e, s2)
                | Inr updatedSubscription \<Rightarrow>
                    (Inr (Json OK
                            (UpgradeData (sub_id updatedSubscription)
                               (case stripePriceId yearlyPlan of Some pr \<Rightarrow> pr | None \<Rightarrow> []))
                            ''Subscription successfully upgraded to Yearly Plan.''), s2))))"

text \<open>The \<open>catch\<close> of the operation: every error of the block becomes an \<open>ApiError\<close>.\<close>

definition upgrade_catch :: "(error + response) \<times> state \<Rightarrow> (error + response) \<times> state" where
  "upgrade_catch r =
     (case r of
        (Inl e, s) \<Rightarrow>
          (Inl (ApiError INTERNAL_SERVER_ERROR
                  (if error_message e \<noteq> [] then error_message e
                   else ''Failed to upgrade subscription.'')), s)
      | (Inr x, s) \<Rightarrow> (Inr x, s))"

definition precondition_error :: error where
  "precondition_error =
     ApiError BAD_REQUEST ''You must have an active Monthly plan to upgrade to Yearly.''"

text \<open>
  The first \<open>if\<close> tests \<open>!user.stripeSubscriptionId\<close> first; past it the reference
  is a non-empty string, which the \<open>case\<close> names \<open>subId\<close>.
\<close>

definition upgradeToYearly ::
  "PlanTypes \<Rightarrow> stripe \<Rightarrow> plan list \<Rightarrow> plan_ref user \<Rightarrow> state \<Rightarrow> (error + response) \<times> state" where
  "upgradeToYearly PT st plans usr s =
     (case stripeSubscriptionId usr of
        None \<Rightarrow> (Inl precondition_error, s)
      | Some subId \<Rightarrow>
          if subId = [] \<or> subscriptionStatus usr \<noteq> Some ''active''
             \<or> currentPlanType usr \<noteq> Some (MONTHLY PT)
          then (Inl precondition_error, s)
          else
            (case Plan_findOne_type_active plans (YEARLY PT) of
               None \<Rightarrow> (Inl (ApiError NOT_FOUND ''Yearly plan not found in database.''), s)
             | Some yearlyPlan \<Rightarrow>
                 if \<not> truthy (stripePriceId yearlyPlan)
                 then (Inl (ApiError INTERNAL_SERVER_ERROR ''Yearly plan misconfigured.''), s)
                 else upgrade_catch (upgrade_try st yearlyPlan subId usr s)))"

section \<open>createCheckoutSession\<close>

text \<open>
  \<open>req.user\<close> is the document of the acting user as the session layer loaded it;
  \<open>planId\<close> comes from the request body and \<open>frontend\<close> is \<open>bridge.FRONTEND_URL\<close>.
\<close>

definition customer_params_of :: "'r user \<Rightarrow> customer_params" where
  "customer_params_of usr =
     \<lparr>cp_email = email usr, cp_name = user_name usr, cp_userId = user_id usr\<rparr>"

definition session_params_of :: "string \<Rightarrow> plan \<Rightarrow> ObjectId \<Rightarrow> string \<Rightarrow> session_params" where
  "session_params_of frontend pl userId stripeCustomerId' =
     \<lparr>sp_customer = stripeCustomerId',
      sp_price = stripePriceId pl,
      sp_quantity = 1,
      sp_mode = ''subscription'',
      sp_success_url = frontend @ ''/dashboard?payment=success&session_id={CHECKOUT_SESSION_ID}'',
      sp_cancel_url = frontend @ ''/dashboard?payment=canceled'',
      sp_metadata = \<lparr>md_userId = userId, md_planId = plan_id pl, md_planType = plan_type pl\<rparr>,
      sp_subscription_userId = userId,
      sp_allow_promotion_codes = True\<rparr>"

definition checkout_try ::
  "string \<Rightarrow> stripe \<Rightarrow> plan \<Rightarrow> ObjectId \<Rightarrow> string \<Rightarrow> state \<Rightarrow> (error + response) \<times> state" where
  "checkout_try frontend st pl userId stripeCustomerId' s =
     (let params = session_params_of frontend pl userId stripeCustomerId';
          s1 = emit (CheckoutSessionsCreate params) s in
      case checkout_sessions_create st params of
        Inl e \<Rightarrow>
          (Inl (ApiError INTERNAL_SERVER_ERROR
                  (if error_message e \<noteq> [] then error_message e
                   else ''Failed to create Stripe Checkout Session.'')), s1)
      | Inr (sessionId, url) \<Rightarrow>
          (Inr (Json OK (CheckoutData sessionId url) ''Stripe Checkout Session created successfully.''), s1))"

definition createCheckoutSession ::
  "string \<Rightarrow> (string \<Rightarrow> ObjectId option) \<Rightarrow> stripe \<Rightarrow> plan list \<Rightarrow> string option \<Rightarrow> 'r user \<Rightarrow> state
     \<Rightarrow> (error + response) \<times> state" where
  "createCheckoutSession frontend cast st plans planId usr s =
     (case planId of
        None \<Rightarrow> (Inl (ApiError BAD_REQUEST ''Plan ID is required to create a checkout session.''), s)
      | Some pid \<Rightarrow>
          if pid = []
          then (Inl (ApiError BAD_REQUEST ''Plan ID is required to create a checkout session.''), s)
          else
            (case Plan_findById cast plans pid of
               Inl e \<Rightarrow> (Inl e, s)
             | Inr None \<Rightarrow> (Inl (ApiError BAD_REQUEST ''Selected plan not found or is inactive.''), s)
             | Inr (Some pl) \<Rightarrow>
                 if \<not> isActive pl
                 then (Inl (ApiError BAD_REQUEST ''Selected plan not found or is inactive.''), s)
                 else
                   (case (if truthy (stripeCustomerId usr) then stripeCustomerId usr else None) of
                      Some cid \<Rightarrow> checkout_try frontend st pl (user_id usr) cid s
                    | None \<Rightarrow>
                        (let params = customer_params_of usr;
                             s1 = emit (CustomersCreate params) s in
                         case customers_create st params of
                           Inl e \<Rightarrow> (Inl e, s1)
                         | Inr cid \<Rightarrow>
                             (case save (user_id usr) (\<lambda>u. u\<lparr>stripeCustomerId := Some cid\<rparr>) s1 of
                                (Some e, s2) \<Rightarrow> (Inl e, s2)
                              | (None, s2) \<Rightarrow> checkout_try frontend st pl (user_id usr) cid s2)))))"

section \<open>handleStripeWebhook\<close>

text \<open>
  Each \<open>case\<close> of the \<open>switch\<close> is a function from the state to the error it throws
  (if any) and the new state. \<open>if (session.subscription)\<close> is truthiness: the reference
  is there and not empty. In the first case both \<open>findById\<close> are awaited, the user's
  first, before \<open>if (user && plan)\<close>.
\<close>

definition checkout_assign ::
  "checkout_session \<Rightarrow> int subscription \<Rightarrow> plan \<Rightarrow> ObjectId user \<Rightarrow> ObjectId user" where
  "checkout_assign session subscription pl u =
     assign_subscriptionExpiresAt (new_Date (current_period_end subscription * 1000))
       (u\<lparr>stripeSubscriptionId := Some (sub_id subscription),
          stripeCustomerId := Some (cs_customer session),
          currentPlanId := Some (plan_id pl),
          currentPlanType := Some (plan_type pl),
          subscriptionStatus := Some (sub_status subscription)\<rparr>)"

definition on_checkout_session_completed ::
  "(string \<Rightarrow> ObjectId option) \<Rightarrow> stripe \<Rightarrow> plan list \<Rightarrow> checkout_session \<Rightarrow> state
     \<Rightarrow> error option \<times> state" where
  "on_checkout_session_completed cast st plans session s =
     (case cs_subscription session of
        None \<Rightarrow> (None, s)
      | Some ref \<Rightarrow>
          if ref = [] then (None, s)
          else
            (let s1 = emit (SubscriptionsRetrieve ref) s in
             case subscriptions_retrieve st ref of
               Inl e \<Rightarrow> (Some e, s1)
             | Inr subscription \<Rightarrow>
                 (let userId = md_userId (cs_metadata session);
                      planId = md_planId (cs_metadata session) in
                  case User_findById cast (users s1) userId of
                    Inl e \<Rightarrow> (Some e, s1)
                  | Inr usr \<Rightarrow>
                      (case Plan_findById cast plans planId of
                         Inl e \<Rightarrow> (Some e, s1)
                       | Inr pl \<Rightarrow>
                           (case (usr, pl) of
                              (Some usr', Some pl') \<Rightarrow>
                                save (user_id usr') (checkout_assign session subscription pl') s1
                            | _ \<Rightarrow> (None, s1))))))"

definition on_invoice_payment_succeeded ::
  "stripe \<Rightarrow> invoice \<Rightarrow> state \<Rightarrow> error option \<times> state" where
  "on_invoice_payment_succeeded st invoice s =
     (case inv_subscription invoice of
        None \<Rightarrow> (None, s)
      | Some ref \<Rightarrow>
          if ref = [] then (None, s)
          else
            (let s1 = emit (SubscriptionsRetrieve ref) s in
             case subscriptions_retrieve st ref of
               Inl e \<Rightarrow> (Some e, s1)
             | Inr subscription \<Rightarrow>
                 (case User_findOne_stripeSubscriptionId (users s1) (sub_id subscription) of
                    None \<Rightarrow> (None, s1)
                  | Some usr \<Rightarrow>
                      save (user_id usr)
                        (\<lambda>u. assign_subscriptionExpiresAt
                                (new_Date (current_period_end subscription * 1000))
                                (u\<lparr>subscriptionStatus := Some (sub_status subscription)\<rparr>))
                        s1)))"

definition on_customer_subscription_updated ::
  "plan list \<Rightarrow> int subscription \<Rightarrow> state \<Rightarrow> error option \<times> state" where
  "on_customer_subscription_updated plans updatedSubscription s =
     (case User_findOne_stripeSubscriptionId (users s) (sub_id updatedSubscription) of
        None \<Rightarrow> (None, s)
      | Some userUpdated \<Rightarrow>
          (let refresh =
                 (\<lambda>u. assign_subscriptionExpiresAt
                         (new_Date (current_period_end updatedSubscription * 1000))
                         (u\<lparr>subscriptionStatus := Some (sub_status updatedSubscription)\<rparr>));
               replan =
                 (case sub_items updatedSubscription of
                    [] \<Rightarrow> (\<lambda>u. u)
                  | item # _ \<Rightarrow>
                      (case Plan_findOne_stripePriceId plans (price_id item) of
                         None \<Rightarrow> (\<lambda>u. u)
                       | Some newPlan \<Rightarrow>
                           (\<lambda>u. u\<lparr>currentPlanId := Some (plan_id newPlan),
                                   currentPlanType := Some (plan_type newPlan)\<rparr>))) in
           save (user_id userUpdated) (\<lambda>u. replan (refresh u)) s))"

text \<open>
  \<open>deletedSubscription.current_period_end ? new Date(... * 1000) : new Date()\<close>: the
  test is JavaScript truthiness, so a missing period end and the number 0 both take the
  clock's date \<open>now\<close>.
\<close>

definition on_customer_subscription_deleted ::
  "Date \<Rightarrow> int option subscription \<Rightarrow> state \<Rightarrow> error option \<times> state" where
  "on_customer_subscription_deleted now deletedSubscription s =
     (case User_findOne_stripeSubscriptionId (users s) (sub_id deletedSubscription) of
        None \<Rightarrow> (None, s)
      | Some userDeleted \<Rightarrow>
          save (user_id userDeleted)
            (\<lambda>u. assign_subscriptionExpiresAt
                    (case current_period_end deletedSubscription of
                       None \<Rightarrow> Some now
                     | Some n \<Rightarrow> if n \<noteq> 0 then new_Date (n * 1000) else Some now)
                    (u\<lparr>stripeSubscriptionId := None,
                       currentPlanId := None,
                       currentPlanType := None,
                       subscriptionStatus := Some ''canceled''\<rparr>))
            s)"

fun dispatch ::
  "(string \<Rightarrow> ObjectId option) \<Rightarrow> stripe \<Rightarrow> plan list \<Rightarrow> Date \<Rightarrow> event \<Rightarrow> state
     \<Rightarrow> error option \<times> state" where
  "dispatch cast st plans now (checkout_session_completed session) s =
     on_checkout_session_completed cast st plans session s"
| "dispatch cast st plans now (invoice_payment_succeeded invoice) s =
     on_invoice_payment_succeeded st invoice s"
| "dispatch cast st plans now (customer_subscription_updated sub) s =
     on_customer_subscription_updated plans sub s"
| "dispatch cast st plans now (customer_subscription_deleted sub) s =
     on_customer_subscription_deleted now sub s"
| "dispatch cast st plans now (unhandled t) s = (None, s)"

text \<open>
  The handler: \<open>body\<close> is the raw request body, \<open>sig\<close> the \<open>stripe-signature\<close>
  header. An error thrown after verification leaves the handler as its result (the
  \<open>asyncHandler\<close> wrapper hands it on); no response is sent by the handler then.
\<close>

definition handleStripeWebhook ::
  "(string \<Rightarrow> ObjectId option) \<Rightarrow> stripe \<Rightarrow> plan list \<Rightarrow> Date \<Rightarrow> string \<Rightarrow> string option \<Rightarrow> state
     \<Rightarrow> (error + response) \<times> state" where
  "handleStripeWebhook cast st plans now body sig s =
     (case webhooks_constructEvent st body sig of
        Inl message \<Rightarrow> (Inr (Send BAD_REQUEST (''Webhook Error: '' @ message)), s)
      | Inr ev \<Rightarrow>
          (case dispatch cast st plans now ev s of
             (Some e, s') \<Rightarrow> (Inl e, s')
           | (None, s') \<Rightarrow> (Inr (Send OK ''Webhook Received''), s')))"

section \<open>Invariants and reachable states\<close>

text \<open>
  The subscription reference that a handler retrieves from the provider: the one on the
  checkout session or on the invoice. The other events carry the subscription itself.
\<close>

fun attached_subscription :: "event \<Rightarrow> string option" where
  "attached_subscription (checkout_session_completed session) = cs_subscription session"
| "attached_subscription (invoice_payment_succeeded invoice) = inv_subscription invoice"
| "attached_subscription _ = None"

text \<open>
  The two invariants of a stored user document: a subscription reference comes with a
  status; the plan type is the type of the catalogue's plan with the id \<open>currentPlanId\<close>,
  and is absent when \<open>currentPlanId\<close> is.
\<close>

definition billing_invariant :: "plan list \<Rightarrow> ObjectId user \<Rightarrow> bool" where
  "billing_invariant plans u =
     ((stripeSubscriptionId u \<noteq> None \<longrightarrow> subscriptionStatus u \<noteq> None)
      \<and> (case currentPlanId u of
           None \<Rightarrow> currentPlanType u = None
         | Some pid \<Rightarrow>
             (case find (\<lambda>p. plan_id p = pid) plans of
                None \<Rightarrow> False
              | Some p \<Rightarrow> currentPlanType u = Some (plan_type p))))"

text \<open>
  A document as the schema creates it: every billing field at its default. The reachable
  states start from an empty collection; accounts are added with fresh documents, and the
  three operations of the controller that touch the state run in any order, with any
  provider, any cast and any request.
\<close>

definition fresh :: "ObjectId user \<Rightarrow> bool" where
  "fresh u = (stripeCustomerId u = None \<and> stripeSubscriptionId u = None
              \<and> subscriptionStatus u = None \<and> currentPlanId u = None
              \<and> currentPlanType u = None \<and> subscriptionExpiresAt u = None)"

inductive reachable :: "PlanTypes \<Rightarrow> plan list \<Rightarrow> state \<Rightarrow> bool" for PT :: PlanTypes and plans :: "plan list" where
  initial: "reachable PT plans \<lparr>users = [], trace = []\<rparr>"
| signup: "reachable PT plans s \<Longrightarrow> fresh u \<Longrightarrow> reachable PT plans (s\<lparr>users := users s @ [u]\<rparr>)"
| checkout:
    "reachable PT plans s \<Longrightarrow>
     reachable PT plans (snd (createCheckoutSession frontend cast st plans planId (usr :: plan_ref user) s))"
| upgrade:
    "reachable PT plans s \<Longrightarrow> reachable PT plans (snd (upgradeToYearly PT st plans usr s))"
| webhook:
    "reachable PT plans s \<Longrightarrow> reachable PT plans (snd (handleStripeWebhook cast st plans now body sig s))"

section \<open>A concrete scenario\<close>

text \<open>
  A cast that takes the strings of 24 hexadecimal digits to the id in lower case and
  refuses every other string.
\<close>

definition hex_digit :: "char \<Rightarrow> char option" where
  "hex_digit c =
     (if c \<in> set ''0123456789abcdef'' then Some c
      else map_of [(CHR ''A'', CHR ''a''), (CHR ''B'', CHR ''b''), (CHR ''C'', CHR ''c''),
                   (CHR ''D'', CHR ''d''), (CHR ''E'', CHR ''e''), (CHR ''F'', CHR ''f'')] c)"

definition cast0 :: "string \<Rightarrow> ObjectId option" where
  "cast0 v = (if length v = 24 then those (map hex_digit v) else None)"

text \<open>
  One catalogue with a monthly and a yearly plan, one freshly created user, and a
  provider that answers every request.
\<close>

definition PT0 :: PlanTypes where
  "PT0 = \<lparr>MONTHLY = ''Monthly'', YEARLY = ''Yearly'', FREE_TRIAL = ''FreeTrial''\<rparr>"

definition monthly_plan :: plan where
  "monthly_plan = \<lparr>plan_id = ''64b000000000000000000001'', plan_name = ''Monthly'',
                    plan_type = ''Monthly'', stripePriceId = Some ''price_m'', isActive = True\<rparr>"

definition yearly_plan :: plan where
  "yearly_plan = \<lparr>plan_id = ''64b000000000000000000002'', plan_name = ''Yearly'',
                   plan_type = ''Yearly'', stripePriceId = Some ''price_y'', isActive = True\<rparr>"

definition plans0 :: "plan list" where
  "plans0 = [monthly_plan, yearly_plan]"

definition new_user :: "'r user" where
  "new_user = \<lparr>user_id = ''64a000000000000000000001'', email = ''a@b.c'', user_name = ''A'',
                stripeCustomerId = None, stripeSubscriptionId = None, subscriptionStatus = None,
                currentPlanId = None, currentPlanType = None, subscriptionExpiresAt = None\<rparr>"

definition sub1 :: "int subscription" where
  "sub1 = \<lparr>sub_id = ''sub_1'', sub_status = ''active'', current_period_end = 1700000000,
            sub_items = [\<lparr>item_id = ''si_1'', price_id = ''price_m''\<rparr>]\<rparr>"

definition stripe0 :: "(string + event) \<Rightarrow> stripe" where
  "stripe0 r = \<lparr>customers_create = (\<lambda>_. Inr ''cus_1''),
               checkout_sessions_create = (\<lambda>_. Inr (''cs_1'', ''https://pay.example/cs_1'')),
               subscriptions_retrieve = (\<lambda>_. Inr sub1),
               subscriptions_update = (\<lambda>_ _. Inr sub1),
               webhooks_constructEvent = (\<lambda>_ _. r)\<rparr>"

definition s0 :: state where
  "s0 = \<lparr>users = [new_user], trace = []\<rparr>"

text \<open>The same user once the monthly subscription \<open>sub_1\<close> is active.\<close>

definition subscribed_user :: "'r option \<Rightarrow> 'r user" where
  "subscribed_user r = \<lparr>user_id = ''64a000000000000000000001'', email = ''a@b.c'',
                user_name = ''A'',
                stripeCustomerId = Some ''cus_1'', stripeSubscriptionId = Some ''sub_1'',
                subscriptionStatus = Some ''active'',
                currentPlanId = r, currentPlanType = Some ''Monthly'',
                subscriptionExpiresAt = Some 1700000000000\<rparr>"

definition s1 :: state where
  "s1 = \<lparr>users = [subscribed_user (Some ''64b000000000000000000001'')], trace = []\<rparr>"

text \<open>Events for the subscription \<open>sub_1\<close>.\<close>

definition sub_unknown :: "int subscription" where
  "sub_unknown = \<lparr>sub_id = ''sub_1'', sub_status = ''past_due'', current_period_end = 1800000000,
            sub_items = [\<lparr>item_id = ''si_1'', price_id = ''price_gone''\<rparr>]\<rparr>"

definition del0 :: "int option subscription" where
  "del0 = \<lparr>sub_id = ''sub_1'', sub_status = ''canceled'', current_period_end = Some 0,
            sub_items = []\<rparr>"

definition del1 :: "int option subscription" where
  "del1 = \<lparr>sub_id = ''sub_1'', sub_status = ''canceled'', current_period_end = Some 1700000000,
            sub_items = []\<rparr>"

text \<open>
  The checkout session that the user of \<open>s0\<close> completed for the monthly plan, the same
  session naming a user that is not stored, and a provider whose subscription retrieval
  fails.
\<close>

definition cs0 :: checkout_session where
  "cs0 = \<lparr>cs_id = ''cs_1'', cs_subscription = Some ''sub_1'', cs_customer = ''cus_1'',
           cs_metadata = \<lparr>md_userId = ''64a000000000000000000001'',
                          md_planId = ''64b000000000000000000001'', md_planType = ''Monthly''\<rparr>\<rparr>"

definition cs_gone :: checkout_session where
  "cs_gone = cs0\<lparr>cs_metadata := \<lparr>md_userId = ''64a0000000000000000000ff'',
                                   md_planId = ''64b000000000000000000001'',
                                   md_planType = ''Monthly''\<rparr>\<rparr>"

definition stripe_down :: "(string + event) \<Rightarrow> stripe" where
  "stripe_down r = (stripe0 r)\<lparr>subscriptions_retrieve := (\<lambda>_. Inl (StripeError ''connection error''))\<rparr>"

text \<open>A provider that refuses to create checkout sessions.\<close>

definition stripe_no_session :: stripe where
  "stripe_no_session =
     (stripe0 (Inl []))\<lparr>checkout_sessions_create := (\<lambda>_. Inl (StripeError ''No such price''))\<rparr>"

section \<open>Facts about the store\<close>

lemma cast0_ids:
  "cast0 ''64a000000000000000000001'' = Some ''64a000000000000000000001''"
  "cast0 ''64a0000000000000000000ff'' = Some ''64a0000000000000000000ff''"
  "cast0 ''64b000000000000000000001'' = Some ''64b000000000000000000001''"
  "cast0 ''64b000000000000000000002'' = Some ''64b000000000000000000002''"
  "cast0 ''64b000000000000000000007'' = Some ''64b000000000000000000007''"
  by (simp_all add: cast0_def hex_digit_def)

lemma find_Some_D: "find P xs = Some x \<Longrightarrow> x \<in> set xs \<and> P x"
  by (induction xs) (auto split: if_splits)

lemma save_stored:
  assumes "find (\<lambda>u. user_id u = i) (users s) \<noteq> None"
  shows "save i f s =
           (None, s\<lparr>users := map (\<lambda>u. if user_id u = i then f u else u) (users s),
                     trace := trace s @ [UserSave i]\<rparr>)"
  using assms by (auto simp: save_def emit_def Let_def split: option.splits)

lemma save_not_stored:
  assumes "find (\<lambda>u. user_id u = i) (users s) = None"
  shows "save i f s = (Some (DocumentNotFoundError i), s\<lparr>trace := trace s @ [UserSave i]\<rparr>)"
  using assms by (simp add: save_def emit_def Let_def)

lemma save_member:
  assumes "u \<in> set (users s)"
  shows "save (user_id u) f s =
           (None, s\<lparr>users := map (\<lambda>x. if user_id x = user_id u then f x else x) (users s),
                     trace := trace s @ [UserSave (user_id u)]\<rparr>)"
proof -
  have "find (\<lambda>x. user_id x = user_id u) (users s) \<noteq> None"
    using assms by (auto simp: find_None_iff)
  then show ?thesis by (rule save_stored)
qed

lemma list_all_save:
  assumes "list_all P (users s)" "\<And>u. P u \<Longrightarrow> P (f u)"
  shows "list_all P (users (snd (save i f s)))"
  using assms by (auto simp: save_def emit_def Let_def list_all_iff split: option.splits)

section \<open>Properties of upgradeToYearly\<close>

lemma snd_upgrade_catch: "snd (upgrade_catch r) = snd r"
  by (cases r) (auto simp: upgrade_catch_def split: sum.splits)

text \<open>
  C1. A user whose record has no (or an empty) subscription reference, or whose status
  is not exactly \<open>active\<close>, or whose plan type is not exactly the monthly one, is refused
  with the \<open>BAD_REQUEST\<close> error of the precondition; the state comes back as it was: no
  request to the provider and no save is recorded, and no user document changes.
\<close>

theorem upgradeToYearly_precondition_failed:
  assumes "\<not> truthy (stripeSubscriptionId usr) \<or> subscriptionStatus usr \<noteq> Some ''active''
           \<or> currentPlanType usr \<noteq> Some (MONTHLY PT)"
  shows "upgradeToYearly PT st plans usr s =
           (Inl (ApiError BAD_REQUEST ''You must have an active Monthly plan to upgrade to Yearly.''), s)"
  using assms unfolding upgradeToYearly_def precondition_error_def
  by (cases "stripeSubscriptionId usr") auto

theorem upgradeToYearly_precondition_failed_witness:
  "subscriptionStatus (new_user :: plan_ref user) \<noteq> Some ''active'' \<and>
   upgradeToYearly PT0 (stripe0 (Inl [])) plans0 new_user s0 =
     (Inl (ApiError BAD_REQUEST ''You must have an active Monthly plan to upgrade to Yearly.''), s0)"
  using upgradeToYearly_precondition_failed [of new_user PT0 "stripe0 (Inl [])" plans0 s0]
  by (simp add: new_user_def)




section \<open>Properties of createCheckoutSession\<close>

lemma checkout_try_state:
  "snd (checkout_try frontend st pl userId cid s) =
     s\<lparr>trace := trace s @ [CheckoutSessionsCreate (session_params_of frontend pl userId cid)]\<rparr>"
  by (auto simp: checkout_try_def Let_def emit_def split: sum.splits prod.splits)

lemma checkout_try_failed:
  "checkout_sessions_create st (session_params_of frontend pl userId cid) = Inl e \<Longrightarrow>
   fst (checkout_try frontend st pl userId cid s) =
     Inl (ApiError INTERNAL_SERVER_ERROR
            (if error_message e \<noteq> [] then error_message e
             else ''Failed to create Stripe Checkout Session.''))"
  by (simp add: checkout_try_def Let_def)

text \<open>
  C9. The plan id of the request, when it is there and not empty, is a string that the
  document layer casts to an object id. When it then names no plan of the catalogue, or a
  plan that is not active, the operation fails with a \<open>BAD_REQUEST\<close> error and returns
  the state as it was (no request to the provider, no save); for an id that is there and
  not empty the error is `Selected plan not found or is inactive.'.
\<close>

theorem createCheckoutSession_invalid_plan:
  assumes wf: "\<forall>pid. planId = Some pid \<and> pid \<noteq> [] \<longrightarrow> cast pid \<noteq> None"
    and inv: "\<forall>pid pl. planId = Some pid \<and> Plan_findById cast plans pid = Inr (Some pl)
                \<longrightarrow> \<not> isActive pl"
  shows "(\<exists>m. createCheckoutSession frontend cast st plans planId usr s =
               (Inl (ApiError BAD_REQUEST m), s))
         \<and> (truthy planId \<longrightarrow>
              createCheckoutSession frontend cast st plans planId usr s =
                (Inl (ApiError BAD_REQUEST ''Selected plan not found or is inactive.''), s))"
  using assms
  by (auto simp: createCheckoutSession_def Plan_findById_def split: option.splits sum.splits)

theorem createCheckoutSession_invalid_plan_witness:
  "createCheckoutSession ''https://app.example'' cast0 (stripe0 (Inl [])) plans0
     (Some ''64b000000000000000000007'') (new_user :: ObjectId user) s0 =
   (Inl (ApiError BAD_REQUEST ''Selected plan not found or is inactive.''), s0)"
  using createCheckoutSession_invalid_plan
    [where planId = "Some ''64b000000000000000000007''" and cast = cast0 and plans = plans0
       and frontend = "''https://app.example''" and st = "stripe0 (Inl [])"
       and usr = "new_user :: ObjectId user" and s = s0]
  by (simp add: cast0_ids plans0_def Plan_findById_def monthly_plan_def yearly_plan_def)

text \<open>
  C6. The user has no customer reference, is stored (a document with the id of
  \<open>req.user\<close> is in the collection), and the plan of the request is there and active.
  When the provider creates the customer \<open>cid\<close>, the effects are, in this order: the
  customer request, the save of the user, the checkout-session request; the stored
  documents with the user's id hold \<open>cid\<close> as \<open>stripeCustomerId\<close> and nothing else
  changed, whatever the answer to the session request; when that request fails the
  operation fails with \<open>INTERNAL_SERVER_ERROR\<close>. When the provider fails to create the
  customer, its error is the result and no document is changed.
\<close>

theorem createCheckoutSession_customer_persisted:
  assumes nocust: "\<not> truthy (stripeCustomerId usr)"
    and stored: "find (\<lambda>u. user_id u = user_id usr) (users s) \<noteq> None"
    and pid: "planId = Some pid" "pid \<noteq> []"
    and pl: "Plan_findById cast plans pid = Inr (Some pl)" "isActive pl"
  shows "case customers_create st (customer_params_of usr) of
           Inl e \<Rightarrow>
             createCheckoutSession frontend cast st plans planId usr s =
               (Inl e, s\<lparr>trace := trace s @ [CustomersCreate (customer_params_of usr)]\<rparr>)
         | Inr cid \<Rightarrow>
             snd (createCheckoutSession frontend cast st plans planId usr s) =
               s\<lparr>users := map (\<lambda>u. if user_id u = user_id usr
                                    then u\<lparr>stripeCustomerId := Some cid\<rparr> else u) (users s),
                 trace := trace s @
                   [CustomersCreate (customer_params_of usr),
                    UserSave (user_id usr),
                    CheckoutSessionsCreate (session_params_of frontend pl (user_id usr) cid)]\<rparr>
             \<and> (\<forall>e. checkout_sessions_create st (session_params_of frontend pl (user_id usr) cid) = Inl e
                   \<longrightarrow> fst (createCheckoutSession frontend cast st plans planId usr s) =
                         Inl (ApiError INTERNAL_SERVER_ERROR
                                (if error_message e \<noteq> [] then error_message e
                                 else ''Failed to create Stripe Checkout Session.'')))"
proof -
  have none: "(if truthy (stripeCustomerId usr) then stripeCustomerId usr else None) = None"
    using nocust by simp
  show ?thesis
  proof (cases "customers_create st (customer_params_of usr)")
    case (Inl e)
    then show ?thesis
      using pid pl none by (simp add: createCheckoutSession_def Let_def emit_def)
  next
    case (Inr cid)
    let ?s1 = "emit (CustomersCreate (customer_params_of usr)) s"
    let ?f = "\<lambda>u :: ObjectId user. u\<lparr>stripeCustomerId := Some cid\<rparr>"
    let ?s2 = "?s1\<lparr>users := map (\<lambda>u. if user_id u = user_id usr then ?f u else u) (users ?s1),
                   trace := trace ?s1 @ [UserSave (user_id usr)]\<rparr>"
    have st1: "find (\<lambda>u. user_id u = user_id usr) (users ?s1) \<noteq> None"
      using stored by (simp add: emit_def)
    have sv: "save (user_id usr) ?f ?s1 = (None, ?s2)"
      by (rule save_stored [OF st1])
    have "createCheckoutSession frontend cast st plans planId usr s =
            checkout_try frontend st pl (user_id usr) cid ?s2"
      using pid pl none Inr sv by (simp add: createCheckoutSession_def Let_def)
    then show ?thesis
      using Inr by (simp add: checkout_try_state checkout_try_failed emit_def)
  qed
qed

theorem createCheckoutSession_customer_persisted_witness:
  "createCheckoutSession ''https://app.example'' cast0 stripe_no_session plans0
     (Some ''64b000000000000000000001'') (new_user :: ObjectId user) s0 =
     (Inl (ApiError INTERNAL_SERVER_ERROR ''No such price''),
      \<lparr>users = [new_user\<lparr>stripeCustomerId := Some ''cus_1''\<rparr>],
       trace = [CustomersCreate (customer_params_of (new_user :: ObjectId user)),
                UserSave ''64a000000000000000000001'',
                CheckoutSessionsCreate
                  (session_params_of ''https://app.example'' monthly_plan
                     ''64a000000000000000000001'' ''cus_1'')]\<rparr>)"
  using createCheckoutSession_customer_persisted
    [where usr = "new_user :: ObjectId user" and planId = "Some ''64b000000000000000000001''"
       and pid = "''64b000000000000000000001''" and cast = cast0
       and plans = plans0 and pl = monthly_plan and st = stripe_no_session
       and frontend = "''https://app.example''" and s = s0]
  by (simp add: stripe_no_session_def stripe0_def plans0_def monthly_plan_def new_user_def s0_def
      Plan_findById_def cast0_ids prod_eq_iff)


section \<open>Properties of handleStripeWebhook\<close>

text \<open>
  C8. A verified event whose type is none of \<open>checkout.session.completed\<close>,
  \<open>invoice.payment_succeeded\<close>, \<open>customer.subscription.updated\<close> and
  \<open>customer.subscription.deleted\<close> is answered with \<open>OK\<close>, `Webhook Received', and
  the state is returned as it was: no user document changes, nothing is saved and no
  request goes to the provider.
\<close>

theorem handleStripeWebhook_unhandled:
  assumes "webhooks_constructEvent st body sig = Inr ev"
    and "event_type ev \<notin> {''checkout.session.completed'', ''invoice.payment_succeeded'',
                           ''customer.subscription.updated'', ''customer.subscription.deleted''}"
  shows "handleStripeWebhook cast st plans now body sig s = (Inr (Send OK ''Webhook Received''), s)"
  using assms by (cases ev) (simp_all add: handleStripeWebhook_def)

theorem handleStripeWebhook_unhandled_witness:
  "handleStripeWebhook cast0 (stripe0 (Inr (unhandled ''customer.created''))) plans0 0 ''{}''
     (Some ''t=1,v1=ab'') s1
   = (Inr (Send OK ''Webhook Received''), s1)"
  using handleStripeWebhook_unhandled
    [where st = "stripe0 (Inr (unhandled ''customer.created''))" and body = "''{}''"
       and sig = "Some ''t=1,v1=ab''" and ev = "unhandled ''customer.created''"
       and cast = cast0 and plans = plans0 and now = 0 and s = s1]
  by (simp add: stripe0_def)

text \<open>
  C10. A \<open>customer.subscription.updated\<close> event that matches a user, whose period end
  makes a date (within 8.64e15 milliseconds of the epoch), and whose first item's price
  id is the \<open>stripePriceId\<close> of no plan, is acknowledged; every document with the
  matched user's id gets the status and the expiry of the event's subscription and keeps
  every other field, \<open>currentPlanId\<close> and \<open>currentPlanType\<close> among them; all other
  documents are unchanged.
\<close>

theorem subscription_updated_unknown_price:
  assumes ev: "webhooks_constructEvent st body sig = Inr (customer_subscription_updated sub)"
    and usr: "User_findOne_stripeSubscriptionId (users s) (sub_id sub) = Some u"
    and range: "Date_range (current_period_end sub * 1000)"
    and item: "sub_items sub = item # rest"
    and noplan: "Plan_findOne_stripePriceId plans (price_id item) = None"
  shows "handleStripeWebhook cast st plans now body sig s =
           (Inr (Send OK ''Webhook Received''),
            s\<lparr>users :=
                 map (\<lambda>x. if user_id x = user_id u
                           then x\<lparr>subscriptionStatus := Some (sub_status sub),
                                  subscriptionExpiresAt := Some (current_period_end sub * 1000)\<rparr>
                           else x) (users s),
               trace := trace s @ [UserSave (user_id u)]\<rparr>)"
proof -
  have mem: "u \<in> set (users s)"
    using usr find_Some_D unfolding User_findOne_stripeSubscriptionId_def by fastforce
  show ?thesis
    using ev usr range item noplan
    by (simp add: handleStripeWebhook_def on_customer_subscription_updated_def
        save_member [OF mem] new_Date_def assign_subscriptionExpiresAt_def)
qed

theorem subscription_updated_unknown_price_witness:
  "handleStripeWebhook cast0 (stripe0 (Inr (customer_subscription_updated sub_unknown))) plans0 0
     ''{}'' None s1 =
     (Inr (Send OK ''Webhook Received''),
      \<lparr>users = [(subscribed_user (Some ''64b000000000000000000001''))
                  \<lparr>subscriptionStatus := Some ''past_due'',
                   subscriptionExpiresAt := Some 1800000000000\<rparr>],
       trace = [UserSave ''64a000000000000000000001'']\<rparr>)"
  using subscription_updated_unknown_price
    [where st = "stripe0 (Inr (customer_subscription_updated sub_unknown))" and body = "''{}''"
       and sig = None and sub = sub_unknown and s = s1
       and u = "subscribed_user (Some ''64b000000000000000000001'')"
       and item = "\<lparr>item_id = ''si_1'', price_id = ''price_gone''\<rparr>" and rest = "[]"
       and plans = plans0 and now = 0 and cast = cast0]
  by (simp add: stripe0_def sub_unknown_def s1_def subscribed_user_def plans0_def monthly_plan_def
      yearly_plan_def User_findOne_stripeSubscriptionId_def Plan_findOne_stripePriceId_def
      Date_range_def)

text \<open>
  C5, as the code has it. A \<open>customer.subscription.deleted\<close> event whose period end,
  when there is one, makes a date (within 8.64e15 milliseconds of the epoch) is
  acknowledged. When no user holds the event's subscription id the state is returned as
  it was. When a user does, every document with that user's id gets
  \<open>stripeSubscriptionId\<close>, \<open>currentPlanId\<close> and \<open>currentPlanType\<close> cleared, the
  status \<open>canceled\<close>, and as expiry the event's period end when it is there and not 0,
  and the clock's time when it is missing or 0; all other documents are unchanged.
\<close>

theorem subscription_deleted_effect:
  assumes ev: "webhooks_constructEvent st body sig = Inr (customer_subscription_deleted sub)"
    and range: "\<forall>n. current_period_end sub = Some n \<longrightarrow> Date_range (n * 1000)"
  shows "case User_findOne_stripeSubscriptionId (users s) (sub_id sub) of
           None \<Rightarrow>
             handleStripeWebhook cast st plans now body sig s =
               (Inr (Send OK ''Webhook Received''), s)
         | Some u \<Rightarrow>
             handleStripeWebhook cast st plans now body sig s =
               (Inr (Send OK ''Webhook Received''),
                s\<lparr>users :=
                     map (\<lambda>x. if user_id x = user_id u
                               then x\<lparr>stripeSubscriptionId := None,
                                      currentPlanId := None,
                                      currentPlanType := None,
                                      subscriptionStatus := Some ''canceled'',
                                      subscriptionExpiresAt :=
                                        Some (case current_period_end sub of
                                                None \<Rightarrow> now
                                              | Some n \<Rightarrow> if n = 0 then now else n * 1000)\<rparr>
                               else x) (users s),
                   trace := trace s @ [UserSave (user_id u)]\<rparr>)"
proof (cases "User_findOne_stripeSubscriptionId (users s) (sub_id sub)")
  case None
  then show ?thesis
    using ev by (simp add: handleStripeWebhook_def on_customer_subscription_deleted_def)
next
  case (Some u)
  then have mem: "u \<in> set (users s)"
    using find_Some_D unfolding User_findOne_stripeSubscriptionId_def by fastforce
  show ?thesis
    using ev Some range
    by (cases "current_period_end sub")
       (simp_all add: handleStripeWebhook_def on_customer_subscription_deleted_def
          save_member [OF mem] new_Date_def assign_subscriptionExpiresAt_def)
qed

theorem subscription_deleted_effect_witness:
  "handleStripeWebhook cast0 (stripe0 (Inr (customer_subscription_deleted del1))) plans0
     1700000500000 ''{}'' None s1 =
     (Inr (Send OK ''Webhook Received''),
      \<lparr>users = [(subscribed_user (Some ''64b000000000000000000001''))
                  \<lparr>stripeSubscriptionId := None, currentPlanId := None, currentPlanType := None,
                   subscriptionStatus := Some ''canceled'',
                   subscriptionExpiresAt := Some 1700000000000\<rparr>],
       trace = [UserSave ''64a000000000000000000001'']\<rparr>)"
  using subscription_deleted_effect
    [where st = "stripe0 (Inr (customer_subscription_deleted del1))" and body = "''{}''"
       and sig = None and sub = del1 and s = s1 and plans = plans0 and now = 1700000500000
       and cast = cast0]
  by (simp add: stripe0_def del1_def s1_def subscribed_user_def
      User_findOne_stripeSubscriptionId_def Date_range_def)

text \<open>
  The event \<open>del0\<close> carries the period end 0 and matches the user of \<open>s1\<close>; at the
  clock time 1700000500000 the stored expiry is the clock time, not the period end.
\<close>

theorem subscription_deleted_period_end_zero_counterexample:
  "User_findOne_stripeSubscriptionId (users s1) (sub_id del0) =
     Some (subscribed_user (Some ''64b000000000000000000001''))
   \<and> current_period_end del0 = Some 0
   \<and> map subscriptionExpiresAt
        (users (snd (handleStripeWebhook cast0
                       (stripe0 (Inr (customer_subscription_deleted del0))) plans0
                       1700000500000 ''{}'' None s1))) = [Some 1700000500000]
   \<and> Some (1700000500000 :: int) \<noteq> Some (0 * 1000)"
  by (simp add: stripe0_def del0_def s1_def subscribed_user_def User_findOne_stripeSubscriptionId_def
      handleStripeWebhook_def on_customer_subscription_deleted_def save_def emit_def
      assign_subscriptionExpiresAt_def)


text \<open>Facts about the checkout handler.\<close>

lemma find_user_map:
  assumes "\<And>u. user_id (f u) = user_id u"
  shows "find (\<lambda>u. user_id u = i) (map (\<lambda>u. if user_id u = j then f u else u) us) =
         map_option (\<lambda>u. if user_id u = j then f u else u) (find (\<lambda>u. user_id u = i) us)"
  using assms by (induction us) auto

lemma map_update_idem:
  assumes "\<And>u. user_id (f u) = user_id u" "\<And>u. f (f u) = f u"
  shows "map (\<lambda>u. if user_id u = j then f u else u) (map (\<lambda>u. if user_id u = j then f u else u) us)
         = map (\<lambda>u. if user_id u = j then f u else u) us"
  using assms by (induction us) auto

lemma checkout_assign_id [simp]: "user_id (checkout_assign session subscription pl u) = user_id u"
  by (simp add: checkout_assign_def assign_subscriptionExpiresAt_def split: option.splits)

lemma checkout_assign_idem [simp]:
  "checkout_assign session subscription pl (checkout_assign session subscription pl u) =
   checkout_assign session subscription pl u"
  by (simp add: checkout_assign_def assign_subscriptionExpiresAt_def split: option.splits)

lemma on_checkout_success:
  assumes "cs_subscription session = Some ref" "ref \<noteq> []"
    and "subscriptions_retrieve st ref = Inr subscription"
    and usr: "User_findById cast (users s) (md_userId (cs_metadata session)) = Inr (Some usr)"
    and "Plan_findById cast plans (md_planId (cs_metadata session)) = Inr (Some pl)"
  shows "on_checkout_session_completed cast st plans session s =
           (None,
            s\<lparr>users := map (\<lambda>u. if user_id u = user_id usr
                                 then checkout_assign session subscription pl u else u) (users s),
              trace := trace s @ [SubscriptionsRetrieve ref, UserSave (user_id usr)]\<rparr>)"
proof -
  let ?s1 = "emit (SubscriptionsRetrieve ref) s"
  have "usr \<in> set (users s)"
    using usr find_Some_D unfolding User_findById_def by (fastforce split: option.splits)
  then have mem: "usr \<in> set (users ?s1)"
    by (simp add: emit_def)
  have usr1: "User_findById cast (users ?s1) (md_userId (cs_metadata session)) = Inr (Some usr)"
    using usr by (simp add: emit_def)
  show ?thesis
    using assms(1,2,3,5) usr1
    by (simp add: on_checkout_session_completed_def Let_def save_member [OF mem])
       (simp add: emit_def)
qed

lemma on_checkout_dropped:
  assumes "cs_subscription session = Some ref" "ref \<noteq> []"
    and "subscriptions_retrieve st ref = Inr subscription"
    and "User_findById cast (users s) (md_userId (cs_metadata session)) = Inr usr"
    and "Plan_findById cast plans (md_planId (cs_metadata session)) = Inr pl"
    and "usr = None \<or> pl = None"
  shows "on_checkout_session_completed cast st plans session s =
           (None, s\<lparr>trace := trace s @ [SubscriptionsRetrieve ref]\<rparr>)"
  using assms
  by (auto simp add: on_checkout_session_completed_def Let_def emit_def split: option.splits)

lemma on_checkout_threw:
  assumes "cs_subscription session = Some ref" "ref \<noteq> []"
    and "subscriptions_retrieve st ref = Inl e
         \<or> (\<exists>subscription. subscriptions_retrieve st ref = Inr subscription)
           \<and> (User_findById cast (users s) (md_userId (cs_metadata session)) = Inl e
              \<or> (\<exists>usr. User_findById cast (users s) (md_userId (cs_metadata session)) = Inr usr)
                \<and> Plan_findById cast plans (md_planId (cs_metadata session)) = Inl e)"
  shows "on_checkout_session_completed cast st plans session s =
           (Some e, s\<lparr>trace := trace s @ [SubscriptionsRetrieve ref]\<rparr>)"
  using assms
  by (auto simp add: on_checkout_session_completed_def Let_def emit_def)

lemma on_checkout_no_subscription:
  assumes "\<not> truthy (cs_subscription session)"
  shows "on_checkout_session_completed cast st plans session s = (None, s)"
  using assms
  by (cases "cs_subscription session") (simp_all add: on_checkout_session_completed_def)

lemma on_checkout_twice:
  "users (snd (on_checkout_session_completed cast st plans session
                 (snd (on_checkout_session_completed cast st plans session s)))) =
   users (snd (on_checkout_session_completed cast st plans session s))
   \<and> fst (on_checkout_session_completed cast st plans session
                 (snd (on_checkout_session_completed cast st plans session s))) =
     fst (on_checkout_session_completed cast st plans session s)"
proof (cases "truthy (cs_subscription session)")
  case False
  then show ?thesis by (simp add: on_checkout_no_subscription)
next
  case True
  then obtain ref where ref: "cs_subscription session = Some ref" "ref \<noteq> []"
    by (cases "cs_subscription session") auto
  let ?uid = "md_userId (cs_metadata session)"
  let ?pid = "md_planId (cs_metadata session)"
  let ?t = "s\<lparr>trace := trace s @ [SubscriptionsRetrieve ref]\<rparr>"
  have same_users: "User_findById cast (users ?t) ?uid = User_findById cast (users s) ?uid"
    by simp
  show ?thesis
  proof (cases "subscriptions_retrieve st ref")
    case (Inl e)
    then have "\<And>x. on_checkout_session_completed cast st plans session x =
                 (Some e, x\<lparr>trace := trace x @ [SubscriptionsRetrieve ref]\<rparr>)"
      using ref by (intro on_checkout_threw) auto
    then show ?thesis by simp
  next
    case (Inr subscription)
    show ?thesis
    proof (cases "User_findById cast (users s) ?uid")
      case ul: (Inl e)
      have 1: "on_checkout_session_completed cast st plans session s = (Some e, ?t)"
        using ref Inr ul by (intro on_checkout_threw) auto
      have 2: "on_checkout_session_completed cast st plans session ?t =
                 (Some e, ?t\<lparr>trace := trace ?t @ [SubscriptionsRetrieve ref]\<rparr>)"
        using ref Inr ul same_users by (intro on_checkout_threw) auto
      show ?thesis unfolding 1 using 2 by simp
    next
      case ur: (Inr usr)
      show ?thesis
      proof (cases "Plan_findById cast plans ?pid")
        case pl: (Inl e)
        have 1: "on_checkout_session_completed cast st plans session s = (Some e, ?t)"
          using ref Inr ur pl by (intro on_checkout_threw) auto
        have 2: "on_checkout_session_completed cast st plans session ?t =
                   (Some e, ?t\<lparr>trace := trace ?t @ [SubscriptionsRetrieve ref]\<rparr>)"
          using ref Inr ur pl same_users by (intro on_checkout_threw) auto
        show ?thesis unfolding 1 using 2 by simp
      next
        case pr: (Inr pl)
        show ?thesis
        proof (cases "usr = None \<or> pl = None")
          case True
          have 1: "on_checkout_session_completed cast st plans session s = (None, ?t)"
            by (rule on_checkout_dropped [OF ref Inr ur pr True])
          have ur': "User_findById cast (users ?t) ?uid = Inr usr"
            using ur by simp
          have 2: "on_checkout_session_completed cast st plans session ?t =
                     (None, ?t\<lparr>trace := trace ?t @ [SubscriptionsRetrieve ref]\<rparr>)"
            by (rule on_checkout_dropped [OF ref Inr ur' pr True])
          show ?thesis unfolding 1 using 2 by simp
        next
          case False
          then obtain usr' pl' where usr': "usr = Some usr'" and pl': "pl = Some pl'" by auto
          let ?f = "checkout_assign session subscription pl'"
          let ?g = "\<lambda>u. if user_id u = user_id usr' then ?f u else u"
          let ?s' = "s\<lparr>users := map ?g (users s),
                        trace := trace s @ [SubscriptionsRetrieve ref, UserSave (user_id usr')]\<rparr>"
          have fu: "User_findById cast (users s) ?uid = Inr (Some usr')"
            using ur usr' by simp
          have fp: "Plan_findById cast plans ?pid = Inr (Some pl')"
            using pr pl' by simp
          have 1: "on_checkout_session_completed cast st plans session s = (None, ?s')"
            by (rule on_checkout_success [OF ref Inr fu fp])
          obtain oid where oid: "cast ?uid = Some oid"
            and found: "find (\<lambda>u. user_id u = oid) (users s) = Some usr'"
            using fu unfolding User_findById_def by (auto split: option.splits)
          have uid: "user_id usr' = oid"
            using find_Some_D [OF found] by simp
          have "find (\<lambda>u. user_id u = oid) (map ?g (users s)) =
                map_option ?g (find (\<lambda>u. user_id u = oid) (users s))"
            by (rule find_user_map) simp
          then have fu': "User_findById cast (users ?s') ?uid = Inr (Some (?f usr'))"
            using found oid uid by (simp add: User_findById_def)
          have 2: "on_checkout_session_completed cast st plans session ?s' =
                     (None,
                      ?s'\<lparr>users := map (\<lambda>u. if user_id u = user_id (?f usr') then ?f u else u)
                                       (users ?s'),
                          trace := trace ?s' @
                            [SubscriptionsRetrieve ref, UserSave (user_id (?f usr'))]\<rparr>)"
            by (rule on_checkout_success [OF ref Inr fu' fp])
          have 4: "map ?g (map ?g (users s)) = map ?g (users s)"
            by (rule map_update_idem) simp_all
          show ?thesis unfolding 1 using 2 4 by simp
        qed
      qed
    qed
  qed
qed

text \<open>
  C3. For a verified \<open>checkout.session.completed\<close> event, a provider that gives the
  same answers and any state: handling the event a second time leaves the user documents
  as the first handling left them, and gives the same result.
\<close>

theorem checkout_completed_idempotent:
  assumes "webhooks_constructEvent st body sig = Inr (checkout_session_completed session)"
  shows "users (snd (handleStripeWebhook cast st plans now body sig
                       (snd (handleStripeWebhook cast st plans now body sig s)))) =
         users (snd (handleStripeWebhook cast st plans now body sig s))
       \<and> fst (handleStripeWebhook cast st plans now body sig
                       (snd (handleStripeWebhook cast st plans now body sig s))) =
         fst (handleStripeWebhook cast st plans now body sig s)"
proof -
  let ?h = "on_checkout_session_completed cast st plans session"
  have H: "handleStripeWebhook cast st plans now body sig x =
        (case ?h x of (Some e, s') \<Rightarrow> (Inl e, s') | (None, s') \<Rightarrow> (Inr (Send OK ''Webhook Received''), s'))" for x
    using assms by (simp add: handleStripeWebhook_def)
  have S: "snd (handleStripeWebhook cast st plans now body sig x) = snd (?h x)" for x
    unfolding H by (cases "?h x") (auto split: option.splits)
  have F: "fst (handleStripeWebhook cast st plans now body sig x) =
       (case fst (?h x) of Some e \<Rightarrow> Inl e | None \<Rightarrow> Inr (Send OK ''Webhook Received''))" for x
    unfolding H by (cases "?h x") (auto split: option.splits)
  show ?thesis
    unfolding S F using on_checkout_twice [of cast st plans session s] by simp
qed

theorem checkout_completed_idempotent_witness:
  "users (snd (handleStripeWebhook cast0 (stripe0 (Inr (checkout_session_completed cs0))) plans0 0
                 ''{}'' None
                 (snd (handleStripeWebhook cast0 (stripe0 (Inr (checkout_session_completed cs0)))
                         plans0 0 ''{}'' None s0)))) =
   [subscribed_user (Some ''64b000000000000000000001'')]"
  using checkout_completed_idempotent
    [where st = "stripe0 (Inr (checkout_session_completed cs0))" and body = "''{}''" and sig = None
       and session = cs0 and plans = plans0 and now = 0 and s = s0 and cast = cast0]
  by (simp add: stripe0_def cs0_def s0_def new_user_def subscribed_user_def plans0_def sub1_def
      monthly_plan_def yearly_plan_def handleStripeWebhook_def on_checkout_session_completed_def
      User_findById_def Plan_findById_def cast0_ids save_def emit_def checkout_assign_def
      new_Date_def Date_range_def assign_subscriptionExpiresAt_def Let_def)


lemma fst_dispatch_ok:
  assumes retr: "\<forall>ref. attached_subscription ev = Some ref \<and> ref \<noteq> [] \<longrightarrow>
                   (\<exists>sub. subscriptions_retrieve st ref = Inr sub)"
    and ids: "\<forall>session ref. ev = checkout_session_completed session
                \<and> cs_subscription session = Some ref \<and> ref \<noteq> [] \<longrightarrow>
                cast (md_userId (cs_metadata session)) \<noteq> None
                \<and> cast (md_planId (cs_metadata session)) \<noteq> None"
  shows "fst (dispatch cast st plans now ev s) = None"
proof (cases ev)
  case (checkout_session_completed session)
  show ?thesis
  proof (cases "truthy (cs_subscription session)")
    case False
    then show ?thesis
      using checkout_session_completed by (simp add: on_checkout_no_subscription)
  next
    case True
    then obtain ref where ref: "cs_subscription session = Some ref" "ref \<noteq> []"
      by (cases "cs_subscription session") auto
    obtain subscription where sub: "subscriptions_retrieve st ref = Inr subscription"
      using retr ref checkout_session_completed by auto
    obtain uo po where uo: "cast (md_userId (cs_metadata session)) = Some uo"
      and po: "cast (md_planId (cs_metadata session)) = Some po"
      using ids ref checkout_session_completed by auto
    let ?usr = "find (\<lambda>u. user_id u = uo) (users s)"
    let ?pl = "find (\<lambda>p. plan_id p = po) plans"
    have fu: "User_findById cast (users s) (md_userId (cs_metadata session)) = Inr ?usr"
      using uo by (simp add: User_findById_def)
    have fp: "Plan_findById cast plans (md_planId (cs_metadata session)) = Inr ?pl"
      using po by (simp add: Plan_findById_def)
    show ?thesis
    proof (cases "?usr = None \<or> ?pl = None")
      case True
      show ?thesis
        using checkout_session_completed on_checkout_dropped [OF ref sub fu fp True] by simp
    next
      case False
      then obtain usr1 pl1 where "?usr = Some usr1" "?pl = Some pl1" by auto
      with fu fp
      have "User_findById cast (users s) (md_userId (cs_metadata session)) = Inr (Some usr1)"
        "Plan_findById cast plans (md_planId (cs_metadata session)) = Inr (Some pl1)"
        by simp_all
      from on_checkout_success [OF ref sub this] show ?thesis
        using checkout_session_completed by simp
    qed
  qed
next
  case (invoice_payment_succeeded invoice)
  show ?thesis
  proof (cases "truthy (inv_subscription invoice)")
    case False
    then show ?thesis
      using invoice_payment_succeeded
      by (cases "inv_subscription invoice") (simp_all add: on_invoice_payment_succeeded_def)
  next
    case True
    then obtain ref where ref: "inv_subscription invoice = Some ref" "ref \<noteq> []"
      by (cases "inv_subscription invoice") auto
    obtain subscription where sub: "subscriptions_retrieve st ref = Inr subscription"
      using retr ref invoice_payment_succeeded by auto
    show ?thesis
    proof (cases "User_findOne_stripeSubscriptionId (users s) (sub_id subscription)")
      case None
      then show ?thesis
        using invoice_payment_succeeded ref sub
        by (simp add: on_invoice_payment_succeeded_def Let_def emit_def)
    next
      case (Some u)
      then have "u \<in> set (users (emit (SubscriptionsRetrieve ref) s))"
        using find_Some_D unfolding User_findOne_stripeSubscriptionId_def emit_def by fastforce
      from save_member [OF this] show ?thesis
        using invoice_payment_succeeded ref sub Some
        by (simp add: on_invoice_payment_succeeded_def Let_def) (simp add: emit_def)
    qed
  qed
next
  case (customer_subscription_updated sub)
  show ?thesis
  proof (cases "User_findOne_stripeSubscriptionId (users s) (sub_id sub)")
    case None
    then show ?thesis
      using customer_subscription_updated by (simp add: on_customer_subscription_updated_def)
  next
    case (Some u)
    then have "u \<in> set (users s)"
      using find_Some_D unfolding User_findOne_stripeSubscriptionId_def by fastforce
    from save_member [OF this] show ?thesis
      using customer_subscription_updated Some
      by (simp add: on_customer_subscription_updated_def Let_def)
  qed
next
  case (customer_subscription_deleted sub)
  show ?thesis
  proof (cases "User_findOne_stripeSubscriptionId (users s) (sub_id sub)")
    case None
    then show ?thesis
      using customer_subscription_deleted by (simp add: on_customer_subscription_deleted_def)
  next
    case (Some u)
    then have "u \<in> set (users s)"
      using find_Some_D unfolding User_findOne_stripeSubscriptionId_def by fastforce
    from save_member [OF this] show ?thesis
      using customer_subscription_deleted Some
      by (simp add: on_customer_subscription_deleted_def)
  qed
next
  case (unhandled t)
  then show ?thesis by simp
qed

lemma dispatch_retrieve_failed:
  assumes "attached_subscription ev = Some ref" "ref \<noteq> []" "subscriptions_retrieve st ref = Inl e"
  shows "dispatch cast st plans now ev s = (Some e, s\<lparr>trace := trace s @ [SubscriptionsRetrieve ref]\<rparr>)"
  using assms
  by (cases ev)
     (simp_all add: on_checkout_session_completed_def on_invoice_payment_succeeded_def Let_def emit_def)

text \<open>
  C4, as the code has it. A response with a status other than \<open>OK\<close> is sent exactly
  when verification fails, and it is the \<open>BAD_REQUEST\<close> response with the
  verification message, the state unchanged. A verified event is answered with \<open>OK\<close>,
  `Webhook Received', when the provider answers the retrieval of the subscription attached
  to the event (if there is one) and the user id and plan id in the metadata of a
  checkout session with a subscription are strings that the document layer casts to
  object ids; this includes the events whose user or plan is missing. When that retrieval
  fails, the provider's error leaves the handler and no response is sent by it.
\<close>

theorem handleStripeWebhook_acknowledgment:
  "(\<forall>r. fst (handleStripeWebhook cast st plans now body sig s) = Inr r \<longrightarrow>
        (status r \<noteq> OK) = (\<exists>m. webhooks_constructEvent st body sig = Inl m))
   \<and> (\<forall>m. webhooks_constructEvent st body sig = Inl m \<longrightarrow>
          handleStripeWebhook cast st plans now body sig s =
            (Inr (Send BAD_REQUEST (''Webhook Error: '' @ m)), s))
   \<and> (\<forall>ev. webhooks_constructEvent st body sig = Inr ev \<longrightarrow>
          (\<forall>ref. attached_subscription ev = Some ref \<and> ref \<noteq> [] \<longrightarrow>
             (\<exists>sub. subscriptions_retrieve st ref = Inr sub)) \<longrightarrow>
          (\<forall>session ref. ev = checkout_session_completed session
             \<and> cs_subscription session = Some ref \<and> ref \<noteq> [] \<longrightarrow>
             cast (md_userId (cs_metadata session)) \<noteq> None
             \<and> cast (md_planId (cs_metadata session)) \<noteq> None) \<longrightarrow>
          fst (handleStripeWebhook cast st plans now body sig s) = Inr (Send OK ''Webhook Received''))
   \<and> (\<forall>ev ref e. webhooks_constructEvent st body sig = Inr ev \<longrightarrow>
          attached_subscription ev = Some ref \<longrightarrow> ref \<noteq> [] \<longrightarrow>
          subscriptions_retrieve st ref = Inl e \<longrightarrow>
          handleStripeWebhook cast st plans now body sig s =
            (Inl e, s\<lparr>trace := trace s @ [SubscriptionsRetrieve ref]\<rparr>))"
proof (cases "webhooks_constructEvent st body sig")
  case (Inl m)
  then show ?thesis by (simp add: handleStripeWebhook_def)
next
  case (Inr ev)
  have H: "handleStripeWebhook cast st plans now body sig s =
        (case dispatch cast st plans now ev s of
           (Some e, t) \<Rightarrow> (Inl e, t) | (None, t) \<Rightarrow> (Inr (Send OK ''Webhook Received''), t))"
    using Inr by (simp add: handleStripeWebhook_def)
  have 1: "\<forall>r. fst (handleStripeWebhook cast st plans now body sig s) = Inr r \<longrightarrow> status r = OK"
    unfolding H by (cases "dispatch cast st plans now ev s") (auto split: option.splits)
  have 3: "fst (handleStripeWebhook cast st plans now body sig s) = Inr (Send OK ''Webhook Received'')"
    if "\<forall>ref. attached_subscription ev = Some ref \<and> ref \<noteq> [] \<longrightarrow>
             (\<exists>sub. subscriptions_retrieve st ref = Inr sub)"
      and "\<forall>session ref. ev = checkout_session_completed session
             \<and> cs_subscription session = Some ref \<and> ref \<noteq> [] \<longrightarrow>
             cast (md_userId (cs_metadata session)) \<noteq> None
             \<and> cast (md_planId (cs_metadata session)) \<noteq> None"
    using fst_dispatch_ok [OF that, of plans now s] unfolding H
    by (cases "dispatch cast st plans now ev s") (auto split: option.splits)
  have 4: "handleStripeWebhook cast st plans now body sig s =
            (Inl e, s\<lparr>trace := trace s @ [SubscriptionsRetrieve ref]\<rparr>)"
    if "attached_subscription ev = Some ref" "ref \<noteq> []" "subscriptions_retrieve st ref = Inl e"
    for ref e
    unfolding H by (simp add: dispatch_retrieve_failed [OF that])
  show ?thesis using Inr 1 3 4 by simp
qed

theorem handleStripeWebhook_acknowledgment_witness:
  "handleStripeWebhook cast0 (stripe0 (Inl ''No signatures found'')) plans0 0 ''{}'' None s0 =
     (Inr (Send BAD_REQUEST ''Webhook Error: No signatures found''), s0)
   \<and> fst (handleStripeWebhook cast0 (stripe0 (Inr (checkout_session_completed cs_gone))) plans0 0
            ''{}'' None s0)
      = Inr (Send OK ''Webhook Received'')"
  using handleStripeWebhook_acknowledgment
      [where st = "stripe0 (Inl ''No signatures found'')" and plans = plans0 and now = 0
         and body = "''{}''" and sig = None and s = s0 and cast = cast0]
    handleStripeWebhook_acknowledgment
      [where st = "stripe0 (Inr (checkout_session_completed cs_gone))" and plans = plans0
         and now = 0 and body = "''{}''" and sig = None and s = s0 and cast = cast0]
  by (simp add: stripe0_def cs0_def cs_gone_def cast0_ids)

theorem handleStripeWebhook_retrieve_failure_counterexample:
  "webhooks_constructEvent (stripe_down (Inr (checkout_session_completed cs0))) ''{}'' None =
     Inr (checkout_session_completed cs0)
   \<and> handleStripeWebhook cast0 (stripe_down (Inr (checkout_session_completed cs0))) plans0 0
        ''{}'' None s0 =
       (Inl (StripeError ''connection error''), s0\<lparr>trace := [SubscriptionsRetrieve ''sub_1'']\<rparr>)
   \<and> fst (handleStripeWebhook cast0 (stripe_down (Inr (checkout_session_completed cs0))) plans0 0
            ''{}'' None s0)
       \<noteq> Inr (Send OK ''Webhook Received'')"
  by (simp add: stripe_down_def stripe0_def cs0_def s0_def handleStripeWebhook_def
      on_checkout_session_completed_def emit_def)


section \<open>The invariants\<close>

lemma find_distinct_plan:
  "distinct (map plan_id ps) \<Longrightarrow> p \<in> set ps \<Longrightarrow> find (\<lambda>q. plan_id q = plan_id p) ps = Some p"
  by (induction ps) (auto simp: image_iff)

lemma Plan_findById_resolves:
  assumes "Plan_findById cast plans i = Inr (Some p)"
  shows "find (\<lambda>q. plan_id q = plan_id p) plans = Some p"
proof -
  obtain oid where "find (\<lambda>q. plan_id q = oid) plans = Some p"
    using assms unfolding Plan_findById_def by (auto split: option.splits)
  moreover from this have "plan_id p = oid"
    using find_Some_D by fastforce
  ultimately show ?thesis by simp
qed

lemma Plan_findOne_resolves:
  assumes "distinct (map plan_id plans)" "Plan_findOne_stripePriceId plans pr = Some p"
  shows "find (\<lambda>q. plan_id q = plan_id p) plans = Some p"
proof -
  have "p \<in> set plans"
    using assms(2) find_Some_D unfolding Plan_findOne_stripePriceId_def by fastforce
  then show ?thesis by (rule find_distinct_plan [OF assms(1)])
qed

lemma assign_expiry_fields [simp]:
  "user_id (assign_subscriptionExpiresAt d u) = user_id u"
  "stripeCustomerId (assign_subscriptionExpiresAt d u) = stripeCustomerId u"
  "stripeSubscriptionId (assign_subscriptionExpiresAt d u) = stripeSubscriptionId u"
  "subscriptionStatus (assign_subscriptionExpiresAt d u) = subscriptionStatus u"
  "currentPlanId (assign_subscriptionExpiresAt d u) = currentPlanId u"
  "currentPlanType (assign_subscriptionExpiresAt d u) = currentPlanType u"
  by (simp_all add: assign_subscriptionExpiresAt_def split: option.splits)

lemma inv_assign_expiry:
  "billing_invariant plans (assign_subscriptionExpiresAt d u) = billing_invariant plans u"
  by (simp add: billing_invariant_def assign_subscriptionExpiresAt_def split: option.splits)

lemma inv_checkout_assign:
  "Plan_findById cast plans i = Inr (Some pl) \<Longrightarrow>
   billing_invariant plans (checkout_assign session sub pl u)"
  by (simp add: checkout_assign_def inv_assign_expiry)
     (simp add: billing_invariant_def Plan_findById_resolves)

lemma inv_on_checkout:
  assumes "list_all (billing_invariant plans) (users s)"
  shows "list_all (billing_invariant plans)
           (users (snd (on_checkout_session_completed cast st plans session s)))"
proof -
  have "list_all (billing_invariant plans)
          (users (snd (save i (checkout_assign session sub pl) (emit e s))))"
    if "Plan_findById cast plans j = Inr (Some pl)" for i sub pl e j
    using assms that by (intro list_all_save) (simp_all add: emit_def inv_checkout_assign)
  then show ?thesis
    using assms
    by (auto simp: on_checkout_session_completed_def Let_def emit_def
        split: option.splits sum.splits)
qed

lemma inv_on_invoice:
  assumes "list_all (billing_invariant plans) (users s)"
  shows "list_all (billing_invariant plans) (users (snd (on_invoice_payment_succeeded st invoice s)))"
proof -
  have "list_all (billing_invariant plans)
          (users (snd (save i (\<lambda>u. assign_subscriptionExpiresAt d
                                  (u\<lparr>subscriptionStatus := Some x\<rparr>)) (emit e s))))" for i d x e
    using assms
    by (intro list_all_save)
       (auto simp: emit_def inv_assign_expiry billing_invariant_def split: option.splits)
  then show ?thesis
    using assms
    by (auto simp: on_invoice_payment_succeeded_def Let_def emit_def
        split: option.splits sum.splits)
qed

lemma inv_on_updated:
  assumes "distinct (map plan_id plans)" "list_all (billing_invariant plans) (users s)"
  shows "list_all (billing_invariant plans) (users (snd (on_customer_subscription_updated plans sub s)))"
proof (cases "User_findOne_stripeSubscriptionId (users s) (sub_id sub)")
  case None
  with assms show ?thesis by (simp add: on_customer_subscription_updated_def)
next
  case (Some u)
  let ?refresh = "\<lambda>u :: ObjectId user. assign_subscriptionExpiresAt
                     (new_Date (current_period_end sub * 1000))
                     (u\<lparr>subscriptionStatus := Some (sub_status sub)\<rparr>)"
  have refresh: "billing_invariant plans (?refresh x)" if "billing_invariant plans x" for x
    using that unfolding inv_assign_expiry
    by (auto simp: billing_invariant_def split: option.splits)
  show ?thesis
  proof (cases "sub_items sub")
    case Nil
    with Some assms(2) refresh show ?thesis
      by (auto simp: on_customer_subscription_updated_def intro!: list_all_save)
  next
    case (Cons item rest)
    show ?thesis
    proof (cases "Plan_findOne_stripePriceId plans (price_id item)")
      case None
      with Some Cons assms(2) refresh show ?thesis
        by (auto simp: on_customer_subscription_updated_def intro!: list_all_save)
    next
      case np: (Some newPlan)
      have res: "find (\<lambda>q. plan_id q = plan_id newPlan) plans = Some newPlan"
        by (rule Plan_findOne_resolves [OF assms(1) np])
      have "billing_invariant plans
              ((?refresh x)\<lparr>currentPlanId := Some (plan_id newPlan),
                            currentPlanType := Some (plan_type newPlan)\<rparr>)" for x
        using res
        by (simp add: billing_invariant_def assign_subscriptionExpiresAt_def split: option.splits)
      with Some Cons np assms(2) show ?thesis
        by (auto simp: on_customer_subscription_updated_def intro!: list_all_save)
    qed
  qed
qed

lemma inv_on_deleted:
  assumes "list_all (billing_invariant plans) (users s)"
  shows "list_all (billing_invariant plans) (users (snd (on_customer_subscription_deleted now sub s)))"
  using assms
  by (auto simp: on_customer_subscription_deleted_def inv_assign_expiry billing_invariant_def
      intro!: list_all_save split: option.splits)

lemma snd_handleStripeWebhook:
  "snd (handleStripeWebhook cast st plans now body sig s) =
     (case webhooks_constructEvent st body sig of
        Inl m \<Rightarrow> s
      | Inr ev \<Rightarrow> snd (dispatch cast st plans now ev s))"
  by (auto simp: handleStripeWebhook_def split: sum.splits prod.splits option.splits)

lemma inv_handleStripeWebhook:
  assumes "distinct (map plan_id plans)" "list_all (billing_invariant plans) (users s)"
  shows "list_all (billing_invariant plans)
           (users (snd (handleStripeWebhook cast st plans now body sig s)))"
proof (cases "webhooks_constructEvent st body sig")
  case (Inl m)
  with assms show ?thesis by (simp add: snd_handleStripeWebhook)
next
  case (Inr ev)
  then show ?thesis
    using assms inv_on_checkout inv_on_invoice inv_on_updated inv_on_deleted
    by (cases ev) (simp_all add: snd_handleStripeWebhook)
qed

lemma users_upgradeToYearly: "users (snd (upgradeToYearly PT st plans usr s)) = users s"
  by (auto simp: upgradeToYearly_def snd_upgrade_catch upgrade_try_def Let_def emit_def
      split: option.splits sum.splits)

lemma inv_createCheckoutSession:
  assumes "list_all (billing_invariant plans) (users s)"
  shows "list_all (billing_invariant plans)
           (users (snd (createCheckoutSession frontend cast st plans planId usr s)))"
proof -
  have sv: "list_all (billing_invariant plans)
          (users (snd (save i (\<lambda>u. u\<lparr>stripeCustomerId := Some cid\<rparr>) (emit e s))))" for i cid e
    using assms
    by (intro list_all_save) (auto simp: emit_def billing_invariant_def split: option.splits)
  have "users (snd (case r of (Some e, s2) \<Rightarrow> (Inl e, s2)
                     | (None, s2) \<Rightarrow> checkout_try frontend st pl i cid s2)) = users (snd r)"
    for r :: "error option \<times> state" and pl i cid
    by (cases r) (auto simp: checkout_try_state split: option.splits)
  with sv assms show ?thesis
    by (auto simp: createCheckoutSession_def checkout_try_state Let_def emit_def
        split: option.splits sum.splits)
qed

lemma reachable_invariant:
  assumes "distinct (map plan_id plans)" "reachable PT plans s"
  shows "list_all (billing_invariant plans) (users s)"
  using assms(2)
proof (induction rule: reachable.induct)
  case initial
  show ?case by simp
next
  case (signup s u)
  then show ?case by (simp add: fresh_def billing_invariant_def)
next
  case (checkout s frontend cast st planId usr)
  then show ?case by (simp add: inv_createCheckoutSession)
next
  case (upgrade s st usr)
  then show ?case by (simp add: users_upgradeToYearly)
next
  case (webhook s cast st now body sig)
  then show ?case by (simp add: inv_handleStripeWebhook [OF assms(1)])
qed

text \<open>
  C7. The plan ids of the catalogue are distinct (they are \<open>_id\<close>s). In every
  reachable state, after the webhook handler has run on any request with any provider,
  every stored user document satisfies both invariants: a subscription reference comes
  with a status, and the plan type is that of the plan \<open>currentPlanId\<close> names, absent
  when \<open>currentPlanId\<close> is absent.
\<close>

theorem webhook_preserves_invariants:
  assumes "distinct (map plan_id plans)" "reachable PT plans s"
  shows "list_all (billing_invariant plans)
           (users (snd (handleStripeWebhook cast st plans now body sig s)))"
  by (rule inv_handleStripeWebhook [OF assms(1) reachable_invariant [OF assms]])

theorem webhook_preserves_invariants_witness:
  "list_all (billing_invariant plans0)
     (users (snd (handleStripeWebhook cast0 (stripe0 (Inr (checkout_session_completed cs0))) plans0 0
                    ''{}'' None s0)))"
proof -
  have d: "distinct (map plan_id plans0)"
    by (simp add: plans0_def monthly_plan_def yearly_plan_def)
  have "reachable PT0 plans0
          (\<lparr>users = [], trace = []\<rparr>\<lparr>users := users \<lparr>users = [], trace = []\<rparr> @ [new_user]\<rparr>)"
    by (rule reachable.signup [OF reachable.initial]) (simp add: fresh_def new_user_def)
  then have r: "reachable PT0 plans0 s0"
    by (simp add: s0_def)
  show ?thesis
    by (rule webhook_preserves_invariants [OF d r])
qed


end
